theory Spec2Isabelle
  imports Main "HOL-Library.Word"
begin

section \<open>Volatile artifact collection: the shared data\<close>

text \<open>
  The development follows \<^verbatim>\<open>varc_core/systems/base_system.py\<close> (class BaseSystem) and
  \<^verbatim>\<open>varc_core/systems/linux.py\<close> (class LinuxSystem). Python strings are modelled as
  \<^typ>\<open>string\<close>, so a character is a code point below 256; Python integers are \<^typ>\<open>int\<close>.
  An exception is a value of \<open>exn\<close>, and a function that may raise returns \<open>exn + 'a\<close>.
\<close>

text \<open>
  The three places that raise ValueError: the check of the selectors in \<^verbatim>\<open>__init__\<close>,
  \<^verbatim>\<open>psutil.Process\<close> on a negative pid, and ctypes on a negative buffer length.
\<close>

datatype value_error = Only_one_selector | Negative_pid | Negative_length

datatype exn =
    ValueError value_error
  | AttributeError
  | FileNotFoundError
  | PermissionError
  | OSError
  | NoSuchProcess

text \<open>\<^verbatim>\<open>except OSError\<close> also catches the subclasses of OSError.\<close>

fun is_OSError :: "exn \<Rightarrow> bool" where
  "is_OSError OSError = True"
| "is_OSError PermissionError = True"
| "is_OSError FileNotFoundError = True"
| "is_OSError _ = False"

type_synonym byte = "8 word"

subsection \<open>What psutil reports\<close>

text \<open>
  A connection as \<^verbatim>\<open>psutil.net_connections()\<close> lists it. An address is the pair of an IP and
  a port, or the empty tuple (None here), which is falsy. The pid may be None.
\<close>

record conn =
  laddr :: "(string \<times> int) option"
  raddr :: "(string \<times> int) option"
  conn_pid :: "int option"

datatype cmdline = CmdStr string | CmdList "string list" | CmdOther

text \<open>
  The dictionary \<^verbatim>\<open>proc.as_dict()\<close>, with the keys the program reads. \<^verbatim>\<open>open_files\<close> and
  \<^verbatim>\<open>memory_maps\<close> hold the \<^verbatim>\<open>path\<close> of each item, and None where psutil gives None.
  \<^verbatim>\<open>create_time\<close> is a float that the program only formats as a date: the field holds the
  formatted text. A \<^verbatim>\<open>connections\<close> key that is missing or None is None.
\<close>

record process =
  pid :: int
  name :: string
  username :: "string option"
  status :: string
  exe :: "string option"
  cmdline :: cmdline
  ppid :: "int option"
  create_time :: string
  open_files :: "string list option"
  connections :: "conn list option"
  memory_maps :: "string list option"

subsection \<open>The archive\<close>

text \<open>A row of \<^verbatim>\<open>process_data\<close>, with the keys of the dictionary as fields.\<close>

record row =
  Process_ID :: int
  Name :: string
  Username :: "string option"
  Status :: string
  Executable_Path :: "string option"
  Command :: string
  Parent_ID :: "int option"
  Creation_Time :: string
  Open_Files :: string
  Connections :: string
  Mapped_Filepaths :: string

text \<open>
  The rows of a table are process rows or \<^verbatim>\<open>{"Open File": path}\<close> rows. \<^verbatim>\<open>json.dumps\<close> is not
  modelled: a table stands for its JSON text.
\<close>

datatype rows = Process_rows "row list" | Open_file_rows "string list"

datatype table = Table (format: string) (rows: rows)

text \<open>
  What an archive entry holds: bytes, encoded text, the JSON text of a table, or the
  content of the file at a path of the host.
\<close>

datatype payload = Bytes "byte list" | Text string | Json table | File_at string

type_synonym archive = "(string \<times> payload) list"

text \<open>The archives on disk, by path. Mode \<^verbatim>\<open>'a'\<close> appends to an archive or creates it.\<close>

type_synonym disk = "string \<rightharpoonup> archive"

definition zip_append :: "disk \<Rightarrow> string \<Rightarrow> archive \<Rightarrow> disk" where
  "zip_append d path entries =
     d(path \<mapsto> (case d path of None \<Rightarrow> [] | Some old \<Rightarrow> old) @ entries)"

subsection \<open>The host\<close>

datatype maps_file = NotFound | Denied | Lines "string list"

datatype vm_read = Failed | Transferred "byte list"

datatype copy_result = Copied | Copy_denied | Vanished

text \<open>
  Everything the program asks of the machine it runs on, constant for one run:
  \<^item> \<open>process_iter\<close>: the processes of \<^verbatim>\<open>psutil.process_iter()\<close>, as dictionaries;
    \<open>getpid\<close>: the pid of the program itself;
  \<^item> \<open>net_connections\<close>: \<^verbatim>\<open>psutil.net_connections()\<close>, None when it raises AccessDenied;
  \<^item> \<open>gethostname\<close>; \<open>timestamp_text\<close>, \<open>now_text\<close> and \<open>time_text\<close>: how
    \<^verbatim>\<open>self.timestamp\<close>, \<^verbatim>\<open>datetime.now()\<close> (formatted) and \<^verbatim>\<open>time.time()\<close> print;
  \<^item> \<open>remove_special_characters\<close> and \<open>strip_drive\<close>: the two functions of
    \<^verbatim>\<open>varc_core.utils.string_manips\<close>, and \<open>dumpfile_extraction\<close>:
    \<^verbatim>\<open>varc_core.utils.dumpfile_extraction.extract_dumps\<close>; the two modules lie outside
    this development, and their functions are parameters of it;
  \<^item> \<open>grab\<close>: the PNG of all monitors, None when mss raises ScreenShotError;
  \<^item> \<open>getsize\<close>: the size of each existing path when the open files are resolved;
    \<open>getsize_at_copy\<close>: the same when they are copied; \<open>zip_write_file\<close>: how
    \<^verbatim>\<open>zip_file.write\<close> of a path ends;
  \<^item> \<open>proc_maps\<close>: what opening and reading \<^verbatim>\<open>/proc/<pid>/maps\<close> yields;
  \<^item> \<open>process_vm_readv\<close>: the system call on a pid, an address and a length: \<open>Failed\<close> is
    the return value -1, \<open>Transferred bs\<close> the bytes written into the buffer;
  \<^item> \<open>tmpfile_write\<close>: the exception, if any, of writing the bytes of the region at an
    address of a pid to the temporary file; \<open>zip_write_dump\<close>: the exception, if any, of
    adding the temporary file to the archive under a name.
\<close>

record host =
  process_iter :: "process list"
  getpid :: int
  net_connections :: "conn list option"
  gethostname :: string
  timestamp_text :: string
  now_text :: string
  time_text :: string
  remove_special_characters :: "string \<Rightarrow> string"
  strip_drive :: "string \<Rightarrow> string"
  dumpfile_extraction :: "string \<Rightarrow> disk \<Rightarrow> exn option \<times> disk"
  grab :: "byte list option"
  getsize :: "string \<rightharpoonup> nat"
  getsize_at_copy :: "string \<rightharpoonup> nat"
  zip_write_file :: "string \<Rightarrow> copy_result"
  proc_maps :: "int \<Rightarrow> maps_file"
  process_vm_readv :: "int \<Rightarrow> int \<Rightarrow> int \<Rightarrow> vm_read"
  tmpfile_write :: "int \<Rightarrow> int \<Rightarrow> exn option"
  zip_write_dump :: "string \<Rightarrow> exn option"

subsection \<open>Strings\<close>

fun str_nat :: "nat \<Rightarrow> string" where
  "str_nat n =
     (if n < 10 then [''0123456789'' ! n]
      else str_nat (n div 10) @ [''0123456789'' ! (n mod 10)])"

declare str_nat.simps [simp del]

text \<open>\<^verbatim>\<open>str(i)\<close>, as an f-string prints an integer.\<close>

definition str_int :: "int \<Rightarrow> string" where
  "str_int i = (if i < 0 then CHR ''-'' # str_nat (nat (- i)) else str_nat (nat i))"

text \<open>\<^verbatim>\<open>sep.join(xs)\<close>\<close>

fun join :: "string \<Rightarrow> string list \<Rightarrow> string" where
  "join s [] = []"
| "join s [x] = x"
| "join s (x # y # ys) = x @ s @ join s (y # ys)"

text \<open>\<^verbatim>\<open>str.lower\<close> on the code points below 256.\<close>

definition lower_char :: "char \<Rightarrow> char" where
  "lower_char c =
     (let n = (of_char c :: nat) in
      if (65 \<le> n \<and> n \<le> 90) \<or> (192 \<le> n \<and> n \<le> 214) \<or> (216 \<le> n \<and> n \<le> 222)
      then char_of (n + 32) else c)"

definition lower :: "string \<Rightarrow> string" where
  "lower s = map lower_char s"

definition endswith :: "string \<Rightarrow> string \<Rightarrow> bool" where
  "endswith s suffix =
     (length suffix \<le> length s \<and> drop (length s - length suffix) s = suffix)"

definition CRLF :: string where
  "CRLF = [char_of (13::nat), char_of (10::nat)]"

section \<open>base_system.py\<close>

definition MAX_OPEN_FILE_SIZE :: nat where
  "MAX_OPEN_FILE_SIZE = 10000000"

text \<open>
  The object. \<^verbatim>\<open>__init__\<close> stores five of its six parameters; \<^verbatim>\<open>acquire_volatile\<close> sets the
  other four attributes.
\<close>

record self =
  process_name :: "string option"
  process_id :: "int option"
  extract_dumps :: bool
  include_memory :: bool
  include_open :: bool
  process_info :: "row list"
  network_log :: "string list"
  dumped_files :: "string list"
  output_path :: string

text \<open>Python's truth value of an optional string and of an optional integer.\<close>

definition truthy_str :: "string option \<Rightarrow> bool" where
  "truthy_str s = (case s of None \<Rightarrow> False | Some t \<Rightarrow> t \<noteq> [])"

definition truthy_int :: "int option \<Rightarrow> bool" where
  "truthy_int i = (case i of None \<Rightarrow> False | Some n \<Rightarrow> n \<noteq> 0)"

text \<open>
  \<^verbatim>\<open>psutil.Process(pid)\<close>, read as a dictionary or for its name: None stands for the program's
  own pid, a negative pid is a ValueError, and a pid that no process has is NoSuchProcess.
\<close>

definition Process :: "host \<Rightarrow> int option \<Rightarrow> exn + process" where
  "Process h p =
     (let q = (case p of None \<Rightarrow> getpid h | Some q \<Rightarrow> q) in
      if q < 0 then Inl (ValueError Negative_pid)
      else case find (\<lambda>pr. pid pr = q) (process_iter h) of
        None \<Rightarrow> Inl NoSuchProcess
      | Some pr \<Rightarrow> Inr pr)"

definition log_line :: "string \<Rightarrow> string \<times> int \<Rightarrow> string \<times> int \<Rightarrow> string" where
  "log_line date l r =
     date @ '' '' @ fst l @ '' '' @ str_int (snd l) @ '' '' @ fst r @ '' '' @ str_int (snd r)"

fun get_network_loop :: "host \<Rightarrow> conn list \<Rightarrow> string list \<Rightarrow> exn + string list" where
  "get_network_loop h [] network = Inr network"
| "get_network_loop h (c # rest) network =
     (case (laddr c, raddr c) of
        (Some l, Some r) \<Rightarrow>
          (case Process h (conn_pid c) of
             Inl e \<Rightarrow> Inl e
           | Inr pr \<Rightarrow>
               get_network_loop h rest
                 (network @ [log_line (now_text h) l r @ '' '' @ name pr]))
      | _ \<Rightarrow> get_network_loop h rest network)"

definition get_network :: "host \<Rightarrow> exn + string list" where
  "get_network h =
     (let conns = (case net_connections h of None \<Rightarrow> [] | Some cs \<Rightarrow> cs)
      in get_network_loop h conns [])"

definition get_processes_dict :: "host \<Rightarrow> self \<Rightarrow> exn + process list" where
  "get_processes_dict h s =
     (if truthy_int (process_id s) then
        (case Process h (process_id s) of Inl e \<Rightarrow> Inl e | Inr pr \<Rightarrow> Inr [pr])
      else if truthy_str (process_name s) then
        Inr (filter (\<lambda>proc_dict. lower (name proc_dict) = lower (the (process_name s)))
               (process_iter h))
      else Inr (process_iter h))"

text \<open>
  The three lists that the loop of \<^verbatim>\<open>dump_loaded_files\<close> fills. \<^verbatim>\<open>exe_paths += proc_exe\<close>
  extends a list by a string, that is by its characters, each a string of length one.
\<close>

fun collect_paths ::
  "process list \<Rightarrow> string list \<times> string list \<times> string list \<Rightarrow>
   string list \<times> string list \<times> string list" where
  "collect_paths [] acc = acc"
| "collect_paths (p # rest) (open_files_acc, mapped_filepaths, exe_paths) =
     collect_paths rest
       (case open_files p of
          None \<Rightarrow> open_files_acc
        | Some fs \<Rightarrow> if fs \<noteq> [] then open_files_acc @ fs else open_files_acc,
        case memory_maps p of
          None \<Rightarrow> mapped_filepaths
        | Some ms \<Rightarrow> if ms \<noteq> [] then mapped_filepaths @ ms else mapped_filepaths,
        case exe p of
          None \<Rightarrow> exe_paths
        | Some e \<Rightarrow> if e \<noteq> [] then exe_paths @ map (\<lambda>c. [c]) e else exe_paths)"

text \<open>
  \<^verbatim>\<open>list(set(...))\<close> keeps one copy of each path, in an order Python does not fix; the model
  keeps the last occurrence of each, and nothing below depends on the order.
  \<^verbatim>\<open>os.path.exists(path) and os.path.getsize(path)\<close> holds of the paths that exist with a
  size other than 0.
\<close>

definition dump_loaded_files :: "host \<Rightarrow> self \<Rightarrow> exn + string list" where
  "dump_loaded_files h s =
     (case get_processes_dict h s of
        Inl e \<Rightarrow> Inl e
      | Inr process_choice \<Rightarrow>
          (case collect_paths process_choice ([], [], []) of
             (open_files_acc, mapped_filepaths, exe_paths) \<Rightarrow>
               let paths = remdups (open_files_acc @ mapped_filepaths @ exe_paths) in
               Inr (filter (\<lambda>path. length path > 1 \<and>
                      (case getsize h path of None \<Rightarrow> False | Some n \<Rightarrow> n \<noteq> 0)) paths)))"

definition connection_lines :: "host \<Rightarrow> conn list \<Rightarrow> string list" where
  "connection_lines h cs =
     concat (map (\<lambda>c. case (laddr c, raddr c) of
                        (Some l, Some r) \<Rightarrow> [log_line (time_text h) l r]
                      | _ \<Rightarrow> []) cs)"

definition process_row :: "host \<Rightarrow> process \<Rightarrow> row" where
  "process_row h p =
     \<lparr>Process_ID = pid p, Name = name p, Username = username p, Status = status p,
      Executable_Path = exe p,
      Command = (case cmdline p of
                   CmdStr c \<Rightarrow> c | CmdList cs \<Rightarrow> join '' '' cs | CmdOther \<Rightarrow> []),
      Parent_ID = ppid p, Creation_Time = create_time p,
      Open_Files = join '' '' (case open_files p of None \<Rightarrow> [] | Some fs \<Rightarrow> fs),
      Connections =
        join CRLF (case connections p of None \<Rightarrow> [] | Some cs \<Rightarrow> connection_lines h cs),
      Mapped_Filepaths = join '','' (case memory_maps p of None \<Rightarrow> [] | Some ms \<Rightarrow> ms)\<rparr>"

definition get_processes :: "host \<Rightarrow> self \<Rightarrow> exn + row list" where
  "get_processes h s =
     (case get_processes_dict h s of
        Inl e \<Rightarrow> Inl e
      | Inr process_choice \<Rightarrow> Inr (map (process_row h) process_choice))"

definition dict_to_json :: "rows \<Rightarrow> table" where
  "dict_to_json rs = Table ''CadoJsonTable'' rs"

definition get_machine_name :: "host \<Rightarrow> string" where
  "get_machine_name h = remove_special_characters h (gethostname h)"

text \<open>The method \<^verbatim>\<open>take_screenshot\<close>: the image, or None after ScreenShotError.\<close>

definition take_screenshot :: "host \<Rightarrow> byte list option" where
  "take_screenshot h = grab h"

text \<open>
  \<^verbatim>\<open>acquire_volatile\<close> tests \<^verbatim>\<open>self.take_screenshot\<close> and \<^verbatim>\<open>self.dump_loaded_files\<close>. No
  attribute of these names is ever assigned (\<^verbatim>\<open>__init__\<close> does not store its parameter
  \<^verbatim>\<open>take_screenshot\<close>), so both name the bound methods, and a method is truthy.
\<close>

definition bound_method :: bool where
  "bound_method = True"

text \<open>The loop that copies the open files into the archive.\<close>

fun copy_files :: "host \<Rightarrow> string list \<Rightarrow> archive \<Rightarrow> archive" where
  "copy_files h [] z = z"
| "copy_files h (file_path # rest) z =
     (case getsize_at_copy h file_path of
        None \<Rightarrow> copy_files h rest z
      | Some n \<Rightarrow>
          if n > MAX_OPEN_FILE_SIZE then copy_files h rest z
          else (case zip_write_file h file_path of
                  Copied \<Rightarrow> copy_files h rest (z @ [(strip_drive h file_path, File_at file_path)])
                | Copy_denied \<Rightarrow> copy_files h rest z
                | Vanished \<Rightarrow> copy_files h rest z))"

text \<open>The entries that \<^verbatim>\<open>acquire_volatile\<close> writes, in the order it writes them.\<close>

definition volatile_entries ::
  "host \<Rightarrow> self \<Rightarrow> byte list option \<Rightarrow> archive" where
  "volatile_entries h s screenshot =
     (let z0 = (case screenshot of
                  None \<Rightarrow> []
                | Some png \<Rightarrow>
                    if png \<noteq> []
                    then [(get_machine_name h @ ''-'' @ timestamp_text h @ ''.png'', Bytes png)]
                    else []);
          z1 = z0 @ [(''processes.json'', Json (dict_to_json (Process_rows (process_info s)))),
                     (''open_files.json'', Json (dict_to_json (Open_file_rows (dumped_files s))))];
          z2 = (if network_log s \<noteq> []
                then z1 @ [(''netstat.log'', Text (join CRLF (network_log s)))]
                else z1)
      in if bound_method then copy_files h (dumped_files s) z2 else z2)"

text \<open>
  \<^verbatim>\<open>acquire_volatile\<close>: the result is the exception or the path of the archive, with the
  object and the disk as the call leaves them. The three collectors run before the archive
  is opened.
\<close>

definition acquire_volatile ::
  "host \<Rightarrow> self \<Rightarrow> string option \<Rightarrow> disk \<Rightarrow> (exn + string) \<times> self \<times> disk" where
  "acquire_volatile h s output_path_arg d =
     (case get_processes h s of
        Inl e \<Rightarrow> (Inl e, s, d)
      | Inr pinfo \<Rightarrow>
          let s1 = s\<lparr>process_info := pinfo\<rparr> in
          (case get_network h of
             Inl e \<Rightarrow> (Inl e, s1, d)
           | Inr nlog \<Rightarrow>
               let s2 = s1\<lparr>network_log := nlog\<rparr> in
               (case (if include_open s2 then dump_loaded_files h s2 else Inr []) of
                  Inl e \<Rightarrow> (Inl e, s2, d)
                | Inr files \<Rightarrow>
                    let s3 = s2\<lparr>dumped_files := files\<rparr>;
                        screenshot = (if bound_method then take_screenshot h else None);
                        out = (if truthy_str output_path_arg then the output_path_arg
                               else get_machine_name h @ ''-'' @ timestamp_text h @ ''.zip'');
                        archive_out = (if \<not> endswith out ''.zip'' then out @ ''.zip'' else out);
                        s4 = s3\<lparr>output_path := out\<rparr>
                    in (Inr archive_out, s4,
                        zip_append d archive_out (volatile_entries h s4 screenshot)))))"

text \<open>
  \<^verbatim>\<open>BaseSystem.__init__\<close>. The parameter \<^verbatim>\<open>take_screenshot\<close> is not used. The result is
  the exception or the object with its \<^verbatim>\<open>zip_path\<close>, and the disk.
\<close>

definition new_self :: "string option \<Rightarrow> int option \<Rightarrow> bool \<Rightarrow> bool \<Rightarrow> bool \<Rightarrow> self" where
  "new_self process_name_arg process_id_arg include_memory_arg include_open_arg
     extract_dumps_arg =
     \<lparr>process_name = process_name_arg, process_id = process_id_arg,
      extract_dumps = extract_dumps_arg, include_memory = include_memory_arg,
      include_open = include_open_arg, process_info = [], network_log = [],
      dumped_files = [], output_path = []\<rparr>"

definition BaseSystem_init ::
  "host \<Rightarrow> string option \<Rightarrow> int option \<Rightarrow> bool \<Rightarrow> bool \<Rightarrow> bool \<Rightarrow> bool \<Rightarrow> disk \<Rightarrow>
   (exn + self \<times> string) \<times> disk" where
  "BaseSystem_init h process_name_arg process_id_arg take_screenshot_arg include_memory_arg
     include_open_arg extract_dumps_arg d =
     (let s = new_self process_name_arg process_id_arg include_memory_arg include_open_arg
                extract_dumps_arg in
      if truthy_str (process_name s) \<and> truthy_int (process_id s)
      then (Inl (ValueError Only_one_selector), d)
      else case acquire_volatile h s None d of
        (Inl e, _, d') \<Rightarrow> (Inl e, d')
      | (Inr zip_path, s', d') \<Rightarrow> (Inr (s', zip_path), d'))"

section \<open>linux.py\<close>

subsection \<open>The memory map parser\<close>

text \<open>The character class \<^verbatim>\<open>[a-fA-F0-9]\<close>.\<close>

definition is_hex :: "char \<Rightarrow> bool" where
  "is_hex c = (c \<in> set ''0123456789abcdefABCDEF'')"

text \<open>
  The class \<^verbatim>\<open>\s\<close> of a str pattern: the white space of Unicode, of which these are
  the code points below 256.
\<close>

definition is_space :: "char \<Rightarrow> bool" where
  "is_space c = ((of_char c :: nat) \<in> {9, 10, 11, 12, 13, 28, 29, 30, 31, 32, 133, 160})"

text \<open>
  \<^verbatim>\<open>re.match(r"([a-fA-F0-9]+)-([a-fA-F0-9]+)\s(r|-)", line)\<close>: the match is anchored at
  the start of the line. Neither \<^verbatim>\<open>-\<close> nor a white space is a hexadecimal digit, so each
  greedy group is the longest run of digits, and no shorter run can match where the
  longest fails. The result is the three groups, or None.
\<close>

definition re_match :: "string \<Rightarrow> (string \<times> string \<times> char) option" where
  "re_match line =
     (let g1 = takeWhile is_hex line; r1 = dropWhile is_hex line in
      if g1 = [] then None
      else case r1 of
        [] \<Rightarrow> None
      | d # r2 \<Rightarrow>
          if d \<noteq> CHR ''-'' then None
          else
            let g2 = takeWhile is_hex r2; r3 = dropWhile is_hex r2 in
            if g2 = [] then None
            else (case r3 of
                    w # p # _ \<Rightarrow>
                      if is_space w \<and> (p = CHR ''r'' \<or> p = CHR ''-'')
                      then Some (g1, g2, p) else None
                  | _ \<Rightarrow> None))"

text \<open>\<^verbatim>\<open>int(s, 16)\<close> on a string of hexadecimal digits.\<close>

definition hex_digit :: "char \<Rightarrow> int" where
  "hex_digit c =
     (let n = of_char c in
      if 48 \<le> n \<and> n \<le> 57 then n - 48
      else if 97 \<le> n \<and> n \<le> 102 then n - 87
      else n - 55)"

definition int16 :: "string \<Rightarrow> int" where
  "int16 s = foldl (\<lambda>a c. 16 * a + hex_digit c) 0 s"

text \<open>
  The loop over the lines of the record. \<^verbatim>\<open>line_groups.group(3)\<close> on a line that did not
  match is an attribute access on None: AttributeError, which the function does not catch.
\<close>

fun parse_lines :: "string list \<Rightarrow> (int \<times> int) list \<Rightarrow> exn + (int \<times> int) list" where
  "parse_lines [] map_addresses = Inr map_addresses"
| "parse_lines (line # rest) map_addresses =
     (case re_match line of
        None \<Rightarrow> Inl AttributeError
      | Some (g1, g2, g3) \<Rightarrow>
          if g3 = CHR ''r''
          then parse_lines rest (map_addresses @ [(int16 g1, int16 g2)])
          else parse_lines rest map_addresses)"

text \<open>
  \<^verbatim>\<open>parse_mem_map\<close>. The two handled failures return the list collected so far, which is
  empty: they arise when the file is opened or read, before the loop. The name of the
  process only appears in the log.
\<close>

definition parse_mem_map :: "host \<Rightarrow> int \<Rightarrow> string \<Rightarrow> exn + (int \<times> int) list" where
  "parse_mem_map h pid_arg p_name =
     (case proc_maps h pid_arg of
        NotFound \<Rightarrow> Inr []
      | Denied \<Rightarrow> Inr []
      | Lines map_content \<Rightarrow> parse_lines map_content [])"

subsection \<open>The region reader\<close>

text \<open>
  \<^verbatim>\<open>read_bytes\<close>. \<^verbatim>\<open>ctypes.create_string_buffer(byte)\<close> raises ValueError for a negative
  length and otherwise gives \<open>byte\<close> zero bytes (the allocation is taken to succeed). The
  system call overwrites a prefix of the buffer, and \<^verbatim>\<open>buff.raw\<close> is the whole buffer.
\<close>

definition read_bytes :: "host \<Rightarrow> int \<Rightarrow> int \<Rightarrow> int \<Rightarrow> exn + byte list option" where
  "read_bytes h pid_arg address byte =
     (if byte < 0 then Inl (ValueError Negative_length)
      else case process_vm_readv h pid_arg address byte of
        Failed \<Rightarrow> Inr None
      | Transferred bs \<Rightarrow> Inr (Some (take (nat byte) (bs @ replicate (nat byte) 0))))"

subsection \<open>The process dump builder\<close>

text \<open>
  The temporary file of one process: the bytes written so far, and the reads attempted so
  far, each with its address and length.
\<close>

record tmpfile =
  written :: "byte list"
  attempted :: "(int \<times> int) list"

text \<open>
  The loop over the regions of one process. The result is the exception that ended the
  loop, if any, and the temporary file.
\<close>

fun read_regions ::
  "host \<Rightarrow> int \<Rightarrow> (int \<times> int) list \<Rightarrow> tmpfile \<Rightarrow> exn option \<times> tmpfile" where
  "read_regions h pid_arg [] t = (None, t)"
| "read_regions h pid_arg (m # rest) t =
     (let page_start = fst m; page_len = snd m - fst m;
          t1 = t\<lparr>attempted := attempted t @ [(page_start, page_len)]\<rparr>
      in case read_bytes h pid_arg page_start page_len of
           Inl e \<Rightarrow> (Some e, t1)
         | Inr None \<Rightarrow> read_regions h pid_arg rest t1
         | Inr (Some mem_page_content) \<Rightarrow>
             if mem_page_content \<noteq> [] then
               (case tmpfile_write h pid_arg page_start of
                  Some e \<Rightarrow> (Some e, t1)
                | None \<Rightarrow>
                    read_regions h pid_arg rest
                      (t1\<lparr>written := written t1 @ mem_page_content\<rparr>))
             else read_regions h pid_arg rest t1)"

definition sep :: string where
  "sep = ''/''"

definition dump_name :: "string \<Rightarrow> int \<Rightarrow> string" where
  "dump_name p_name pid_arg =
     ''process_dumps'' @ sep @ p_name @ ''_'' @ str_int pid_arg @ ''.mem''"

text \<open>
  The body of the loop of \<^verbatim>\<open>dump_processes\<close> for one row of the process table. Both
  handlers end the body, so an exception that is an OSError leaves the archive as it was
  and the loop goes on; any other exception leaves the loop.
\<close>

definition dump_process :: "host \<Rightarrow> row \<Rightarrow> archive \<Rightarrow> exn option \<times> archive" where
  "dump_process h proc z =
     (let pid_v = Process_ID proc; p_name = Name proc in
      case parse_mem_map h pid_v p_name of
        Inl e \<Rightarrow> (Some e, z)
      | Inr maps \<Rightarrow>
          if maps = [] then (None, z)
          else (case read_regions h pid_v maps \<lparr>written = [], attempted = []\<rparr> of
                  (Some e, t) \<Rightarrow> if is_OSError e then (None, z) else (Some e, z)
                | (None, t) \<Rightarrow>
                    (case zip_write_dump h (dump_name p_name pid_v) of
                       Some e \<Rightarrow> if is_OSError e then (None, z) else (Some e, z)
                     | None \<Rightarrow> (None, z @ [(dump_name p_name pid_v, Bytes (written t))]))))"

fun dump_loop :: "host \<Rightarrow> row list \<Rightarrow> archive \<Rightarrow> exn option \<times> archive" where
  "dump_loop h [] z = (None, z)"
| "dump_loop h (proc # rest) z =
     (case dump_process h proc z of
        (Some e, z') \<Rightarrow> (Some e, z')
      | (None, z') \<Rightarrow> dump_loop h rest z')"

text \<open>
  \<^verbatim>\<open>dump_processes\<close> opens the archive at \<^verbatim>\<open>self.output_path\<close> to append; the archive is
  closed with what was written also when an exception leaves the loop.
\<close>

definition dump_processes :: "host \<Rightarrow> self \<Rightarrow> disk \<Rightarrow> exn option \<times> disk" where
  "dump_processes h s d =
     (case dump_loop h (process_info s) [] of
        (e, entries) \<Rightarrow> (e, zip_append d (output_path s) entries))"

text \<open>
  \<^verbatim>\<open>LinuxSystem.__init__\<close>, after loading the system call: the constructor of the base
  class, then the memory dumps and their extraction if asked for.
\<close>

definition LinuxSystem_init ::
  "host \<Rightarrow> bool \<Rightarrow> bool \<Rightarrow> bool \<Rightarrow> string option \<Rightarrow> int option \<Rightarrow> bool \<Rightarrow> disk \<Rightarrow>
   (exn + self \<times> string) \<times> disk" where
  "LinuxSystem_init h include_memory_arg include_open_arg extract_dumps_arg process_name_arg
     process_id_arg take_screenshot_arg d =
     (case BaseSystem_init h process_name_arg process_id_arg take_screenshot_arg
             include_memory_arg include_open_arg extract_dumps_arg d of
        (Inl e, d1) \<Rightarrow> (Inl e, d1)
      | (Inr (s, zip_path), d1) \<Rightarrow>
          if include_memory s then
            (case dump_processes h s d1 of
               (Some e, d2) \<Rightarrow> (Inl e, d2)
             | (None, d2) \<Rightarrow>
                 if extract_dumps s then
                   (case dumpfile_extraction h (output_path s) d2 of
                      (Some e, d3) \<Rightarrow> (Inl e, d3)
                    | (None, d3) \<Rightarrow> (Inr (s, zip_path), d3))
                 else (Inr (s, zip_path), d2))
          else (Inr (s, zip_path), d1))"

section \<open>Example hosts\<close>

text \<open>
  A machine with no process, no connection, no file and no display, on which the later
  examples build.
\<close>

definition no_archives :: disk where
  "no_archives = Map.empty"

definition plain_host :: host where
  "plain_host =
     \<lparr>process_iter = [], getpid = 1, net_connections = Some [], gethostname = ''host'',
      timestamp_text = ''0.0'', now_text = ''2024-01-01 00:00:00'', time_text = ''0.0'',
      remove_special_characters = (\<lambda>s. s), strip_drive = (\<lambda>s. s),
      dumpfile_extraction = (\<lambda>p d. (None, d)), grab = None, getsize = Map.empty,
      getsize_at_copy = Map.empty, zip_write_file = (\<lambda>p. Copied),
      proc_maps = (\<lambda>p. NotFound), process_vm_readv = (\<lambda>p a n. Failed),
      tmpfile_write = (\<lambda>p a. None), zip_write_dump = (\<lambda>n. None)\<rparr>"

text \<open>A record with a readable region at 0x1000 and an unreadable one at 0x2000.\<close>

definition scenario_host :: host where
  "scenario_host =
     plain_host\<lparr>proc_maps :=
                  (\<lambda>p. Lines [''1000-2000 r-xp 00000000 08:01 42 /bin/cat'' @ [CHR 0x0A],
                              ''2000-3000 ---p 00000000 00:00 0'' @ [CHR 0x0A]])\<rparr>"

text \<open>A record whose only entry ends before it starts.\<close>

definition inverted_host :: host where
  "inverted_host =
     plain_host\<lparr>proc_maps :=
                  (\<lambda>p. Lines [''2000-1000 r--p 00000000 00:00 0'' @ [CHR 0x0A]])\<rparr>"

text \<open>
  A record with an empty line after its first entry. A line ends with its line feed, as
  \<^verbatim>\<open>readlines()\<close> returns it.
\<close>

definition blank_line_host :: host where
  "blank_line_host =
     plain_host\<lparr>proc_maps :=
                  (\<lambda>p. Lines [''1000-2000 r-xp 00000000 08:01 42 /bin/cat'' @ [CHR 0x0A],
                              [CHR 0x0A]])\<rparr>"

text \<open>A process that cannot be read: one readable region, and every read fails.\<close>

definition unreadable_host :: host where
  "unreadable_host =
     plain_host\<lparr>proc_maps :=
                  (\<lambda>p. Lines [''1000-2000 r--p 00000000 00:00 0'' @ [CHR 0x0A]])\<rparr>"

text \<open>
  A process with two readable regions of four bytes: the read of the first fails, the
  read of the second gives four bytes.
\<close>

definition small_host :: host where
  "small_host =
     plain_host\<lparr>proc_maps :=
                  (\<lambda>p. Lines [''1000-1004 r-xp 00000000 08:01 42 /bin/cat'' @ [CHR 0x0A],
                              ''2000-2004 rw-p 00000000 00:00 0'' @ [CHR 0x0A]]),
                process_vm_readv :=
                  (\<lambda>p a n. if a = 8192 then Transferred [1, 2, 3, 4] else Failed)\<rparr>"

text \<open>The row of the process table for a process \<^verbatim>\<open>cat\<close> with the pid 7.\<close>

definition cat_row :: row where
  "cat_row =
     \<lparr>Process_ID = 7, Name = ''cat'', Username = Some ''root'', Status = ''running'',
      Executable_Path = Some ''/bin/cat'', Command = ''cat'', Parent_ID = Some 1,
      Creation_Time = ''2024-01-01 00:00:00'', Open_Files = [], Connections = [],
      Mapped_Filepaths = ''/bin/cat''\<rparr>"

text \<open>A machine on which listing the connections is denied.\<close>

definition denied_host :: host where
  "denied_host = plain_host\<lparr>net_connections := None\<rparr>"

text \<open>
  A machine with one process, which has open a file of exactly 10,000,000 bytes, a file of
  one byte more and an empty file, and has the first of them mapped.
\<close>

definition cat_process :: process where
  "cat_process =
     \<lparr>pid = 7, name = ''cat'', username = Some ''root'', status = ''running'',
      exe = Some ''/bin/cat'', cmdline = CmdList [''cat'', ''/var/exact''], ppid = Some 1,
      create_time = ''2024-01-01 00:00:00'',
      open_files = Some [''/var/exact'', ''/var/big'', ''/var/empty''],
      connections = None,
      memory_maps = Some [''/var/exact'', ''[heap]'']\<rparr>"

definition ceiling_sizes :: "string \<rightharpoonup> nat" where
  "ceiling_sizes =
     [''/var/exact'' \<mapsto> 10000000, ''/var/big'' \<mapsto> 10000001, ''/var/empty'' \<mapsto> 0,
      ''/bin/cat'' \<mapsto> 100]"

definition ceiling_host :: host where
  "ceiling_host =
     plain_host\<lparr>process_iter := [cat_process], getsize := ceiling_sizes,
                getsize_at_copy := ceiling_sizes\<rparr>"

text \<open>The object of a run with no selector.\<close>

definition all_processes :: self where
  "all_processes = new_self None None True True False"

text \<open>A machine whose screen can be captured.\<close>

definition display_host :: host where
  "display_host = plain_host\<lparr>grab := Some [137, 80, 78, 71]\<rparr>"

text \<open>
  A machine with one established connection, whose process (pid 99) is no longer among
  the processes when its name is asked for.
\<close>

definition vanished_host :: host where
  "vanished_host =
     plain_host\<lparr>net_connections :=
                  Some [\<lparr>laddr = Some (''10.0.0.1'', 22), raddr = Some (''10.0.0.2'', 50000),
                         conn_pid = Some 99\<rparr>]\<rparr>"

section \<open>Notions used in the statements\<close>

text \<open>The read that the loop makes for a region: its address and its length.\<close>

definition attempt :: "int \<times> int \<Rightarrow> int \<times> int" where
  "attempt m = (fst m, snd m - fst m)"

text \<open>The bytes that the read of one region adds to the temporary file.\<close>

definition captured :: "host \<Rightarrow> int \<Rightarrow> int \<times> int \<Rightarrow> byte list" where
  "captured h p m =
     (case read_bytes h p (fst m) (snd m - fst m) of Inr (Some bs) \<Rightarrow> bs | _ \<Rightarrow> [])"

text \<open>A temporary file continued by what a second one holds.\<close>

definition shift :: "tmpfile \<Rightarrow> tmpfile \<Rightarrow> tmpfile" where
  "shift t u = \<lparr>written = written t @ written u, attempted = attempted t @ attempted u\<rparr>"

text \<open>The paths of an \<^verbatim>\<open>open_files\<close> or \<^verbatim>\<open>memory_maps\<close> value.\<close>

definition listed :: "string list option \<Rightarrow> string list" where
  "listed ps = (case ps of None \<Rightarrow> [] | Some xs \<Rightarrow> xs)"

text \<open>Encoded text is the payload of \<^verbatim>\<open>netstat.log\<close> and of no other entry.\<close>

definition is_text :: "payload \<Rightarrow> bool" where
  "is_text p = (case p of Text t \<Rightarrow> True | _ \<Rightarrow> False)"

section \<open>The memory map parser: properties\<close>

lemmas parser_defs =
  parse_mem_map_def re_match_def is_hex_def is_space_def int16_def hex_digit_def

lemma parse_lines_origin:
  assumes "parse_lines ls acc = Inr ranges" and "r \<in> set ranges"
  shows "r \<in> set acc \<or>
         (\<exists>line g1 g2. line \<in> set ls \<and> re_match line = Some (g1, g2, CHR ''r'') \<and>
            r = (int16 g1, int16 g2))"
  using assms
proof (induction ls arbitrary: acc)
  case Nil
  then show ?case by simp
next
  case (Cons line rest)
  show ?case
  proof (cases "re_match line")
    case None
    with Cons.prems show ?thesis by simp
  next
    case (Some g)
    obtain g1 g2 g3 where g: "g = (g1, g2, g3)" by (cases g) auto
    show ?thesis
    proof (cases "g3 = CHR ''r''")
      case True
      with Some g Cons.prems
      have "parse_lines rest (acc @ [(int16 g1, int16 g2)]) = Inr ranges" by simp
      from Cons.IH [OF this Cons.prems(2)] Some g True show ?thesis by auto
    next
      case False
      with Some g Cons.prems have "parse_lines rest acc = Inr ranges" by simp
      from Cons.IH [OF this Cons.prems(2)] show ?thesis by auto
    qed
  qed
qed

text \<open>
  C1, as the code has it: every range that \<^verbatim>\<open>parse_mem_map\<close> returns comes from a line of
  the record that matches the pattern with the permission flag \<^verbatim>\<open>r\<close>, and its two
  addresses are the two hexadecimal fields of that line as they are written. The parser
  compares no addresses, so the start of a range is below its end exactly when the line
  says so.
\<close>

theorem parse_mem_map_readable_origin:
  assumes "parse_mem_map h p p_name = Inr ranges" and "(a, b) \<in> set ranges"
  shows "\<exists>map_content line g1 g2.
           proc_maps h p = Lines map_content \<and> line \<in> set map_content \<and>
           re_match line = Some (g1, g2, CHR ''r'') \<and> a = int16 g1 \<and> b = int16 g2 \<and>
           (a < b \<longleftrightarrow> int16 g1 < int16 g2)"
proof (cases "proc_maps h p")
  case NotFound
  with assms show ?thesis by (simp add: parse_mem_map_def)
next
  case Denied
  with assms show ?thesis by (simp add: parse_mem_map_def)
next
  case (Lines map_content)
  with assms(1) have "parse_lines map_content [] = Inr ranges"
    by (simp add: parse_mem_map_def)
  from parse_lines_origin [OF this assms(2)] Lines show ?thesis by auto
qed

theorem parse_mem_map_readable_origin_witness:
  "parse_mem_map scenario_host 7 ''cat'' = Inr [(4096, 8192)] \<and>
   (\<exists>map_content line g1 g2.
      proc_maps scenario_host 7 = Lines map_content \<and> line \<in> set map_content \<and>
      re_match line = Some (g1, g2, CHR ''r'') \<and> 4096 = int16 g1 \<and> 8192 = int16 g2 \<and>
      ((4096::int) < 8192 \<longleftrightarrow> int16 g1 < int16 g2))"
proof -
  have run: "parse_mem_map scenario_host 7 ''cat'' = Inr [(4096, 8192)]"
    by (simp add: scenario_host_def plain_host_def parser_defs)
  have "(4096, 8192) \<in> set [(4096::int, 8192::int)]" by simp
  from parse_mem_map_readable_origin [OF run this] run show ?thesis by blast
qed

text \<open>
  C1, as the claim states it, fails: from a record whose readable entry is
  \<^verbatim>\<open>2000-1000\<close> the parser returns the range (0x2000, 0x1000), whose start is not below
  its end.
\<close>

theorem parse_mem_map_inverted_range:
  "parse_mem_map inverted_host 7 ''cat'' = Inr [(8192, 4096)] \<and> \<not> ((8192::int) < 4096)"
  by (simp add: inverted_host_def plain_host_def parser_defs)

text \<open>
  C4: a line that does not match the pattern is not skipped. On a record with an empty
  line \<^verbatim>\<open>parse_mem_map\<close> raises AttributeError, and returns no list.
\<close>

theorem parse_mem_map_blank_line_raises:
  "parse_mem_map blank_line_host 7 ''cat'' = Inl AttributeError"
  by (simp add: blank_line_host_def plain_host_def parser_defs)

section \<open>The region reader and the process dump builder: properties\<close>

lemma read_regions_normal:
  "read_regions h p ms t = (None, u) \<Longrightarrow>
   written u = written t @ concat (map (captured h p) ms) \<and>
   attempted u = attempted t @ map attempt ms"
proof (induction ms arbitrary: t)
  case Nil
  then show ?case by simp
next
  case (Cons m rest)
  then show ?case
    by (auto simp: Let_def captured_def attempt_def split: sum.splits option.splits if_splits)
qed

lemma read_regions_all_failed:
  "\<forall>m\<in>set ms. read_bytes h p (fst m) (snd m - fst m) = Inr None \<Longrightarrow>
   read_regions h p ms t = (None, t\<lparr>attempted := attempted t @ map attempt ms\<rparr>)"
  by (induction ms arbitrary: t) (auto simp: Let_def attempt_def)

lemma shift_attempted [simp]:
  "(shift t u)\<lparr>attempted := attempted (shift t u) @ xs\<rparr> =
   shift t (u\<lparr>attempted := attempted u @ xs\<rparr>)"
  by (simp add: shift_def)

lemma shift_written [simp]:
  "(shift t u)\<lparr>written := written (shift t u) @ xs\<rparr> =
   shift t (u\<lparr>written := written u @ xs\<rparr>)"
  by (simp add: shift_def)

lemma read_regions_shift:
  "read_regions h p ms (shift t u) =
     (case read_regions h p ms u of (e, v) \<Rightarrow> (e, shift t v))"
proof (induction ms arbitrary: u)
  case Nil
  then show ?case by simp
next
  case (Cons m rest)
  show ?case
    by (simp add: Let_def Cons.IH split: sum.splits option.splits)
qed

text \<open>The loop treats the regions the same way whatever the temporary file holds.\<close>

lemma read_regions_from:
  "read_regions h p ms t =
     (case read_regions h p ms \<lparr>written = [], attempted = []\<rparr> of (e, u) \<Rightarrow> (e, shift t u))"
proof -
  have "shift t \<lparr>written = [], attempted = []\<rparr> = t"
    by (cases t) (simp add: shift_def)
  with read_regions_shift [of h p ms t "\<lparr>written = [], attempted = []\<rparr>"]
  show ?thesis by simp
qed

text \<open>
  C3: when the system call is made for a region (the length is not negative) and reports
  failure, \<^verbatim>\<open>read_bytes\<close> returns None and raises nothing, and the loop goes on with the
  remaining regions: after the failed read it attempts exactly the reads that it attempts
  on the remaining regions alone, so a failure takes none of the later attempts away.
\<close>

theorem read_failure_continues:
  assumes "fst m \<le> snd m"
    and "process_vm_readv h p (fst m) (snd m - fst m) = Failed"
  shows "read_bytes h p (fst m) (snd m - fst m) = Inr None \<and>
         read_regions h p (m # rest) t =
           read_regions h p rest (t\<lparr>attempted := attempted t @ [attempt m]\<rparr>) \<and>
         attempted (snd (read_regions h p (m # rest) t)) =
           attempted t @ attempt m #
             attempted (snd (read_regions h p rest \<lparr>written = [], attempted = []\<rparr>))"
proof -
  from assms have none: "read_bytes h p (fst m) (snd m - fst m) = Inr None"
    by (simp add: read_bytes_def)
  then have step: "read_regions h p (m # rest) t =
      read_regions h p rest (t\<lparr>attempted := attempted t @ [attempt m]\<rparr>)"
    by (simp add: Let_def attempt_def)
  have "attempted (snd (read_regions h p rest (t\<lparr>attempted := attempted t @ [attempt m]\<rparr>))) =
        attempted t @ attempt m #
          attempted (snd (read_regions h p rest \<lparr>written = [], attempted = []\<rparr>))"
    by (subst read_regions_from) (simp add: shift_def split: prod.splits)
  with none step show ?thesis by simp
qed

theorem read_failure_continues_witness:
  "fst (4096::int, 4100::int) \<le> snd (4096::int, 4100::int) \<and>
   process_vm_readv small_host 7 4096 4 = Failed \<and>
   read_bytes small_host 7 4096 4 = Inr None \<and>
   read_regions small_host 7 [(4096, 4100), (8192, 8196)] \<lparr>written = [], attempted = []\<rparr> =
     (None, \<lparr>written = [1, 2, 3, 4], attempted = [(4096, 4), (8192, 4)]\<rparr>)"
proof -
  have le: "fst (4096::int, 4100::int) \<le> snd (4096::int, 4100::int)" by simp
  have failed:
    "process_vm_readv small_host 7 (fst (4096::int, 4100::int))
       (snd (4096::int, 4100::int) - fst (4096::int, 4100::int)) = Failed"
    by (simp add: small_host_def plain_host_def)
  have rest: "read_regions small_host 7 [(8192, 8196)] \<lparr>written = [], attempted = [(4096, 4)]\<rparr> =
      (None, \<lparr>written = [1, 2, 3, 4], attempted = [(4096, 4), (8192, 4)]\<rparr>)"
    by (simp add: small_host_def plain_host_def read_bytes_def Let_def)
  from read_failure_continues [OF le failed, of "[(8192, 8196)]" "\<lparr>written = [], attempted = []\<rparr>"]
    failed rest
  show ?thesis by (simp add: attempt_def)
qed

text \<open>
  C2, as the code has it: for a process whose memory map yields a non-empty list of
  regions, the loop body adds the entry \<^verbatim>\<open>process_dumps/<name>_<pid>.mem\<close> exactly when
  neither the loop over the regions nor the write to the archive raises, whether or not a
  read produced a byte. The entry holds the bytes of the regions in order, and when every
  read fails it is added with no bytes.
\<close>

theorem dump_process_commits:
  assumes "parse_mem_map h (Process_ID proc) (Name proc) = Inr maps" and "maps \<noteq> []"
  shows "snd (dump_process h proc z) =
           (if fst (read_regions h (Process_ID proc) maps \<lparr>written = [], attempted = []\<rparr>) = None
               \<and> zip_write_dump h (dump_name (Name proc) (Process_ID proc)) = None
            then z @ [(dump_name (Name proc) (Process_ID proc),
                       Bytes (concat (map (captured h (Process_ID proc)) maps)))]
            else z) \<and>
         ((\<forall>m\<in>set maps. read_bytes h (Process_ID proc) (fst m) (snd m - fst m) = Inr None) \<and>
          zip_write_dump h (dump_name (Name proc) (Process_ID proc)) = None \<longrightarrow>
          dump_process h proc z =
            (None, z @ [(dump_name (Name proc) (Process_ID proc), Bytes [])]))"
proof -
  obtain e t where run:
    "read_regions h (Process_ID proc) maps \<lparr>written = [], attempted = []\<rparr> = (e, t)"
    by (cases "read_regions h (Process_ID proc) maps \<lparr>written = [], attempted = []\<rparr>")
  have first: "snd (dump_process h proc z) =
           (if fst (read_regions h (Process_ID proc) maps \<lparr>written = [], attempted = []\<rparr>) = None
               \<and> zip_write_dump h (dump_name (Name proc) (Process_ID proc)) = None
            then z @ [(dump_name (Name proc) (Process_ID proc),
                       Bytes (concat (map (captured h (Process_ID proc)) maps)))]
            else z)"
  proof (cases e)
    case None
    with run read_regions_normal [of h "Process_ID proc" maps "\<lparr>written = [], attempted = []\<rparr>" t]
    have "written t = concat (map (captured h (Process_ID proc)) maps)" by simp
    with None run assms show ?thesis
      by (simp add: dump_process_def Let_def split: option.splits)
  next
    case (Some x)
    with run assms show ?thesis by (simp add: dump_process_def Let_def)
  qed
  have second: "dump_process h proc z =
      (None, z @ [(dump_name (Name proc) (Process_ID proc), Bytes [])])"
    if all: "\<forall>m\<in>set maps. read_bytes h (Process_ID proc) (fst m) (snd m - fst m) = Inr None"
      and zip: "zip_write_dump h (dump_name (Name proc) (Process_ID proc)) = None"
  proof -
    from read_regions_all_failed [OF all]
    have "read_regions h (Process_ID proc) maps \<lparr>written = [], attempted = []\<rparr> =
        (None, \<lparr>written = [], attempted = map attempt maps\<rparr>)"
      by simp
    with assms zip show ?thesis by (simp add: dump_process_def Let_def)
  qed
  from first second show ?thesis by blast
qed

theorem dump_process_commits_witness:
  "parse_mem_map small_host 7 ''cat'' = Inr [(4096, 4100), (8192, 8196)] \<and>
   snd (dump_process small_host cat_row []) = [(''process_dumps/cat_7.mem'', Bytes [1, 2, 3, 4])] \<and>
   parse_mem_map unreadable_host 7 ''cat'' = Inr [(4096, 8192)] \<and>
   read_bytes unreadable_host 7 4096 4096 = Inr None \<and>
   dump_process unreadable_host cat_row [] = (None, [(''process_dumps/cat_7.mem'', Bytes [])])"
proof -
  have parsed: "parse_mem_map small_host (Process_ID cat_row) (Name cat_row) =
      Inr [(4096, 4100), (8192, 8196)]"
    by (simp add: small_host_def plain_host_def cat_row_def parser_defs)
  have ne: "[(4096::int, 4100::int), (8192, 8196)] \<noteq> []" by simp
  have loop: "read_regions small_host 7 [(4096, 4100), (8192, 8196)] \<lparr>written = [], attempted = []\<rparr> =
      (None, \<lparr>written = [1, 2, 3, 4], attempted = [(4096, 4), (8192, 4)]\<rparr>)"
    by (simp add: small_host_def plain_host_def read_bytes_def Let_def)
  have name: "dump_name ''cat'' 7 = ''process_dumps/cat_7.mem''"
    by (simp add: dump_name_def sep_def str_int_def str_nat.simps)
  have bytes: "concat (map (captured small_host 7) [(4096, 4100), (8192, 8196)]) = [1, 2, 3, 4]"
    by (simp add: captured_def small_host_def plain_host_def read_bytes_def)
  have zip: "zip_write_dump small_host ''process_dumps/cat_7.mem'' = None"
    by (simp add: small_host_def plain_host_def)
  from dump_process_commits [OF parsed ne, of "[]"] parsed loop name bytes zip
  have some: "parse_mem_map small_host 7 ''cat'' = Inr [(4096, 4100), (8192, 8196)] \<and>
      snd (dump_process small_host cat_row []) =
        [(''process_dumps/cat_7.mem'', Bytes [1, 2, 3, 4])]"
    by (simp add: cat_row_def)
  have parsed': "parse_mem_map unreadable_host (Process_ID cat_row) (Name cat_row) =
      Inr [(4096, 8192)]"
    by (simp add: unreadable_host_def plain_host_def cat_row_def parser_defs)
  have ne': "[(4096::int, 8192::int)] \<noteq> []" by simp
  have fail: "read_bytes unreadable_host 7 4096 4096 = Inr None"
    by (simp add: unreadable_host_def plain_host_def read_bytes_def)
  have zip': "zip_write_dump unreadable_host ''process_dumps/cat_7.mem'' = None"
    by (simp add: unreadable_host_def plain_host_def)
  from dump_process_commits [OF parsed' ne', of "[]"] fail zip' name
  have none: "dump_process unreadable_host cat_row [] =
      (None, [(''process_dumps/cat_7.mem'', Bytes [])])"
    by (simp add: cat_row_def)
  from parsed' have "parse_mem_map unreadable_host 7 ''cat'' = Inr [(4096, 8192)]"
    by (simp add: cat_row_def)
  with some fail none show ?thesis by simp
qed

text \<open>
  C2, as the claim states it, fails: the only read of the process fails, no byte is
  produced, and the entry is added all the same, empty.
\<close>

theorem dump_process_empty_entry:
  "read_bytes unreadable_host 7 4096 4096 = Inr None \<and>
   dump_loop unreadable_host [cat_row] [] = (None, [(''process_dumps/cat_7.mem'', Bytes [])])"
  by (simp add: unreadable_host_def plain_host_def cat_row_def parser_defs read_bytes_def
      dump_process_def Let_def dump_name_def sep_def str_int_def str_nat.simps)

section \<open>The collectors and the archive: properties\<close>

lemmas run_defs =
  BaseSystem_init_def new_self_def acquire_volatile_def get_processes_def
  get_processes_dict_def truthy_str_def truthy_int_def get_network_def
  dump_loaded_files_def volatile_entries_def zip_append_def endswith_def
  get_machine_name_def take_screenshot_def bound_method_def dict_to_json_def Process_def

text \<open>
  C5: the flag \<^verbatim>\<open>take_screenshot\<close> does not decide whether the screen is captured. With
  the flag off, on a machine whose screen can be captured, the run captures it and writes
  the entry \<^verbatim>\<open><hostname>-<timestamp>.png\<close> before the two tables.
\<close>

theorem screenshot_despite_flag:
  "snd (BaseSystem_init display_host None None False True True False no_archives) ''host-0.0.zip'' =
     Some [(''host-0.0.png'', Bytes [137, 80, 78, 71]),
           (''processes.json'', Json (Table ''CadoJsonTable'' (Process_rows []))),
           (''open_files.json'', Json (Table ''CadoJsonTable'' (Open_file_rows [])))]"
  by (simp add: display_host_def plain_host_def no_archives_def run_defs Let_def)

text \<open>
  C7: a connection whose process has gone when \<^verbatim>\<open>get_network\<close> asks for its name makes
  \<^verbatim>\<open>psutil.Process\<close> raise NoSuchProcess. Nothing catches it: it leaves \<^verbatim>\<open>get_network\<close>,
  \<^verbatim>\<open>acquire_volatile\<close> and the constructor, and no archive is written.
\<close>

theorem vanished_process_aborts:
  "get_network vanished_host = Inl NoSuchProcess \<and>
   BaseSystem_init vanished_host None None True True True False no_archives =
     (Inl NoSuchProcess, no_archives)"
  by (simp add: vanished_host_def plain_host_def no_archives_def run_defs Let_def)

lemma Process_not_selector: "Process h p \<noteq> Inl (ValueError Only_one_selector)"
  by (simp add: Process_def Let_def split: option.splits)

lemma get_processes_dict_not_selector:
  "get_processes_dict h s \<noteq> Inl (ValueError Only_one_selector)"
  using Process_not_selector [of h "process_id s"]
  by (auto simp: get_processes_dict_def split: sum.splits)

lemma get_network_loop_not_selector:
  "get_network_loop h cs acc \<noteq> Inl (ValueError Only_one_selector)"
proof (induction cs arbitrary: acc)
  case Nil
  then show ?case by simp
next
  case (Cons c rest)
  then show ?case
    using Process_not_selector [of h "conn_pid c"]
    by (auto split: option.splits sum.splits)
qed

lemma acquire_volatile_not_selector:
  "fst (acquire_volatile h s out d) \<noteq> Inl (ValueError Only_one_selector)"
  using get_processes_dict_not_selector [of h s]
    get_processes_dict_not_selector [of h "s\<lparr>process_info := x, network_log := y\<rparr>" for x y]
    get_network_loop_not_selector [of h]
  by (auto simp: acquire_volatile_def get_processes_def get_network_def dump_loaded_files_def
      Let_def split: sum.splits prod.splits)

text \<open>
  C8, as the code has it: the constructor tests the truth values of the two selectors. A
  name that is not empty together with a pid that is not 0 ends the run with the
  validation error, whatever the host, so before any collector has been asked, and leaves
  the disk as it was. With no name, an empty name, no pid or the pid 0, the run does not
  end with the validation error.
\<close>

theorem selector_validation:
  "(n \<noteq> [] \<and> i \<noteq> 0 \<longrightarrow>
      BaseSystem_init h (Some n) (Some i) ts im io ed d = (Inl (ValueError Only_one_selector), d)) \<and>
   (pn = None \<or> pn = Some [] \<or> pi = None \<or> pi = Some 0 \<longrightarrow>
      fst (BaseSystem_init h pn pi ts im io ed d) \<noteq> Inl (ValueError Only_one_selector))"
proof -
  have "fst (BaseSystem_init h pn pi ts im io ed d) \<noteq> Inl (ValueError Only_one_selector)"
    if "pn = None \<or> pn = Some [] \<or> pi = None \<or> pi = Some 0"
  proof -
    from that have "\<not> (truthy_str pn \<and> truthy_int pi)"
      by (auto simp: truthy_str_def truthy_int_def)
    then show ?thesis
      using acquire_volatile_not_selector [of h "new_self pn pi im io ed" None d]
      by (auto simp: BaseSystem_init_def new_self_def Let_def split: prod.splits sum.splits)
  qed
  then show ?thesis
    by (simp add: BaseSystem_init_def new_self_def truthy_str_def truthy_int_def)
qed

theorem selector_validation_witness:
  "BaseSystem_init plain_host (Some ''cat'') (Some 7) True True True False no_archives =
     (Inl (ValueError Only_one_selector), no_archives) \<and>
   fst (BaseSystem_init plain_host (Some ''cat'') None True True True False no_archives) \<noteq>
     Inl (ValueError Only_one_selector) \<and>
   snd (BaseSystem_init plain_host (Some ''cat'') None True True True False no_archives)
     ''host-0.0.zip'' =
     Some [(''processes.json'', Json (Table ''CadoJsonTable'' (Process_rows []))),
           (''open_files.json'', Json (Table ''CadoJsonTable'' (Open_file_rows [])))]"
proof -
  have written: "snd (BaseSystem_init plain_host (Some ''cat'') None True True True False no_archives)
     ''host-0.0.zip'' =
     Some [(''processes.json'', Json (Table ''CadoJsonTable'' (Process_rows []))),
           (''open_files.json'', Json (Table ''CadoJsonTable'' (Open_file_rows [])))]"
    by (simp add: plain_host_def no_archives_def run_defs lower_def Let_def)
  from selector_validation [of "''cat''" 7 plain_host True True True False no_archives
      "Some ''cat''" None] written
  show ?thesis by simp
qed

text \<open>
  C8, as the claim states it, fails: a name and the pid 0 are both supplied, and the run
  raises no validation error and writes its archive.
\<close>

theorem name_with_pid_zero_accepted:
  "fst (BaseSystem_init plain_host (Some ''cat'') (Some 0) True True True False no_archives) \<noteq>
     Inl (ValueError Only_one_selector) \<and>
   snd (BaseSystem_init plain_host (Some ''cat'') (Some 0) True True True False no_archives)
     ''host-0.0.zip'' =
     Some [(''processes.json'', Json (Table ''CadoJsonTable'' (Process_rows []))),
           (''open_files.json'', Json (Table ''CadoJsonTable'' (Open_file_rows [])))]"
  by (simp add: plain_host_def no_archives_def run_defs Let_def)

text \<open>
  C10: the pid 0 and the empty name count as no selector. \<^verbatim>\<open>get_processes_dict\<close> returns
  what it returns without that selector, that is all processes when the other selector is
  absent too, and a name together with the pid 0 does not raise the validation error.
\<close>

theorem zero_selector_ignored:
  "get_processes_dict h (s\<lparr>process_id := Some 0\<rparr>) = get_processes_dict h (s\<lparr>process_id := None\<rparr>) \<and>
   get_processes_dict h (s\<lparr>process_name := Some []\<rparr>) =
     get_processes_dict h (s\<lparr>process_name := None\<rparr>) \<and>
   get_processes_dict h (s\<lparr>process_id := Some 0, process_name := None\<rparr>) = Inr (process_iter h) \<and>
   get_processes_dict h (s\<lparr>process_id := None, process_name := Some []\<rparr>) = Inr (process_iter h) \<and>
   get_processes_dict h (s\<lparr>process_id := Some 0, process_name := Some []\<rparr>) = Inr (process_iter h) \<and>
   fst (BaseSystem_init h (Some n) (Some 0) ts im io ed d) \<noteq> Inl (ValueError Only_one_selector)"
  using acquire_volatile_not_selector [of h "new_self (Some n) (Some 0) im io ed" None d]
  by (auto simp: get_processes_dict_def truthy_str_def truthy_int_def BaseSystem_init_def
      new_self_def Let_def split: prod.splits sum.splits)

theorem zero_selector_ignored_witness:
  "get_processes_dict ceiling_host (all_processes\<lparr>process_id := Some 0\<rparr>) = Inr [cat_process] \<and>
   get_processes_dict ceiling_host (all_processes\<lparr>process_name := Some []\<rparr>) =
     Inr [cat_process] \<and>
   get_processes_dict ceiling_host
     (all_processes\<lparr>process_id := Some 0, process_name := Some ''dog''\<rparr>) = Inr [] \<and>
   fst (BaseSystem_init ceiling_host (Some ''dog'') (Some 0) True True True False no_archives) \<noteq>
     Inl (ValueError Only_one_selector)"
proof -
  have named: "get_processes_dict ceiling_host
      (all_processes\<lparr>process_id := Some 0, process_name := Some ''dog''\<rparr>) = Inr []"
    by (simp add: ceiling_host_def plain_host_def all_processes_def cat_process_def
        get_processes_dict_def truthy_int_def truthy_str_def new_self_def lower_def lower_char_def)
  have zero: "get_processes_dict ceiling_host (all_processes\<lparr>process_id := Some 0\<rparr>) =
      Inr [cat_process]"
    by (simp add: ceiling_host_def plain_host_def all_processes_def
        get_processes_dict_def truthy_int_def truthy_str_def new_self_def)
  have empty: "get_processes_dict ceiling_host (all_processes\<lparr>process_name := Some []\<rparr>) =
      Inr [cat_process]"
    by (simp add: ceiling_host_def plain_host_def all_processes_def
        get_processes_dict_def truthy_int_def truthy_str_def new_self_def)
  from zero_selector_ignored [of ceiling_host all_processes "''dog''" True True True False
      no_archives]
  have "fst (BaseSystem_init ceiling_host (Some ''dog'') (Some 0) True True True False
      no_archives) \<noteq> Inl (ValueError Only_one_selector)"
    by blast
  with named zero empty show ?thesis by blast
qed

lemma collect_paths_sets:
  "collect_paths ps (a, b, c) = (a', b', c') \<Longrightarrow>
   set a' = set a \<union> (\<Union>p\<in>set ps. set (listed (open_files p))) \<and>
   set b' = set b \<union> (\<Union>p\<in>set ps. set (listed (memory_maps p)))"
proof (induction ps arbitrary: a b c)
  case Nil
  then show ?case by simp
next
  case (Cons p rest)
  from Cons.prems Cons.IH show ?case
    by (auto simp: listed_def split: option.splits if_splits)
qed

lemma copy_files_set:
  "set (copy_files h fs z) =
     set z \<union> {(strip_drive h path, File_at path) | path.
               path \<in> set fs \<and> (\<exists>n. getsize_at_copy h path = Some n \<and> n \<le> MAX_OPEN_FILE_SIZE) \<and>
               zip_write_file h path = Copied}"
proof (induction fs arbitrary: z)
  case Nil
  then show ?case by simp
next
  case (Cons f rest)
  show ?case
    by (cases "zip_write_file h f") (auto simp: Cons.IH split: option.splits)
qed

text \<open>
  C6, as the code has it: \<^verbatim>\<open>dump_loaded_files\<close> returns no path twice and only paths
  longer than one character that exist with a size other than 0; it returns every such
  path that a selected process has open or mapped, whatever its size, so a file larger
  than 10,000,000 bytes is listed. The ceiling is applied where the listed files are
  copied into the archive: the copies are those of the listed files whose size is then at
  most 10,000,000 bytes, exactly 10,000,000 included, and which can be read.
\<close>

theorem resolver_output:
  assumes "dump_loaded_files h s = Inr files"
  shows "distinct files \<and>
         (\<forall>path\<in>set files. 1 < length path \<and> (\<exists>n. getsize h path = Some n \<and> n \<noteq> 0)) \<and>
         (\<forall>procs p path n.
            get_processes_dict h s = Inr procs \<and> p \<in> set procs \<and>
            (path \<in> set (listed (open_files p)) \<or> path \<in> set (listed (memory_maps p))) \<and>
            1 < length path \<and> getsize h path = Some n \<and> n \<noteq> 0 \<longrightarrow> path \<in> set files) \<and>
         set (copy_files h files z) =
           set z \<union> {(strip_drive h path, File_at path) | path.
                     path \<in> set files \<and>
                     (\<exists>n. getsize_at_copy h path = Some n \<and> n \<le> 10000000) \<and>
                     zip_write_file h path = Copied}"
proof -
  from assms obtain procs where procs: "get_processes_dict h s = Inr procs"
    by (auto simp: dump_loaded_files_def split: sum.splits)
  obtain a b c where coll: "collect_paths procs ([], [], []) = (a, b, c)"
    by (cases "collect_paths procs ([], [], [])") auto
  from assms procs coll have files:
    "files = filter (\<lambda>path. length path > 1 \<and>
                (case getsize h path of None \<Rightarrow> False | Some n \<Rightarrow> n \<noteq> 0))
              (remdups (a @ b @ c))"
    by (simp add: dump_loaded_files_def Let_def)
  from collect_paths_sets [OF coll]
  have sets: "set a = (\<Union>p\<in>set procs. set (listed (open_files p)))"
    "set b = (\<Union>p\<in>set procs. set (listed (memory_maps p)))"
    by simp_all
  have d: "distinct files" using files by simp
  have kept: "\<forall>path\<in>set files. 1 < length path \<and> (\<exists>n. getsize h path = Some n \<and> n \<noteq> 0)"
    using files by (auto split: option.splits)
  have incl: "path \<in> set files"
    if "get_processes_dict h s = Inr procs'" "p \<in> set procs'"
      "path \<in> set (listed (open_files p)) \<or> path \<in> set (listed (memory_maps p))"
      "1 < length path" "getsize h path = Some n" "n \<noteq> 0"
    for procs' p path n
  proof -
    from that(1) procs have "procs' = procs" by simp
    with that(2,3) sets have "path \<in> set a \<union> set b" by auto
    with that(4,5,6) files show ?thesis by auto
  qed
  have copies: "set (copy_files h files z) =
           set z \<union> {(strip_drive h path, File_at path) | path.
                     path \<in> set files \<and>
                     (\<exists>n. getsize_at_copy h path = Some n \<and> n \<le> 10000000) \<and>
                     zip_write_file h path = Copied}"
    using copy_files_set [of h files z] by (simp add: MAX_OPEN_FILE_SIZE_def)
  from d kept incl copies show ?thesis by blast
qed

theorem resolver_output_witness:
  "map_sum id set (dump_loaded_files ceiling_host all_processes) =
     Inr {''/var/big'', ''/var/exact''} \<and>
   getsize ceiling_host ''/var/big'' = Some 10000001 \<and>
   getsize ceiling_host ''/var/exact'' = Some 10000000 \<and>
   set (copy_files ceiling_host [''/var/big'', ''/var/exact''] []) =
     {(''/var/exact'', File_at ''/var/exact'')}"
proof -
  have run: "dump_loaded_files ceiling_host all_processes = Inr [''/var/big'', ''/var/exact'']"
    by (simp add: ceiling_host_def plain_host_def all_processes_def cat_process_def
        ceiling_sizes_def run_defs)
  have copy: "copy_files ceiling_host [''/var/big'', ''/var/exact''] [] =
      [(''/var/exact'', File_at ''/var/exact'')]"
    by (simp add: ceiling_host_def plain_host_def ceiling_sizes_def MAX_OPEN_FILE_SIZE_def)
  have sizes: "getsize ceiling_host ''/var/big'' = Some 10000001"
    "getsize ceiling_host ''/var/exact'' = Some 10000000"
    by (simp_all add: ceiling_host_def plain_host_def ceiling_sizes_def)
  from resolver_output [OF run, of "[]"] run copy sizes show ?thesis by simp
qed

text \<open>
  C6, as the claim states it, fails: a process has a file of 10,000,001 bytes open, and
  the file is in the list that \<^verbatim>\<open>dump_loaded_files\<close> returns and in \<^verbatim>\<open>dumped_files\<close>,
  from which the rows of \<^verbatim>\<open>open_files.json\<close> are made.
\<close>

theorem oversized_file_listed:
  "getsize ceiling_host ''/var/big'' = Some 10000001 \<and>
   map_sum id set (dump_loaded_files ceiling_host all_processes) =
     Inr {''/var/big'', ''/var/exact''} \<and>
   set (dumped_files (fst (snd (acquire_volatile ceiling_host all_processes None no_archives)))) =
     {''/var/big'', ''/var/exact''}"
  by (simp add: ceiling_host_def plain_host_def all_processes_def cat_process_def
      ceiling_sizes_def no_archives_def run_defs Let_def)

lemma get_processes_dict_fields:
  "get_processes_dict h (s\<lparr>process_info := x, network_log := y\<rparr>) = get_processes_dict h s"
  by (simp add: get_processes_dict_def)

lemma png_name_differs: "m @ ''-'' @ ts @ ''.png'' \<noteq> ''netstat.log''"
proof
  assume "m @ ''-'' @ ts @ ''.png'' = ''netstat.log''"
  then have "rev (m @ ''-'' @ ts @ ''.png'') = rev ''netstat.log''" by (rule arg_cong)
  then show False by simp
qed

lemma volatile_entries_no_log:
  assumes "network_log s = []"
  shows "\<forall>e\<in>set (volatile_entries h s shot).
           \<not> is_text (snd e) \<and>
           (fst e = ''netstat.log'' \<longrightarrow>
              (\<exists>f\<in>set (dumped_files s). e = (strip_drive h f, File_at f)))"
  using assms png_name_differs [of "get_machine_name h" "timestamp_text h"]
  by (auto simp: volatile_entries_def Let_def bound_method_def copy_files_set is_text_def
      split: option.splits if_splits)

text \<open>
  C9: when listing the connections is denied, \<^verbatim>\<open>get_network\<close> returns the empty list. In
  a run that reaches it, that is when the processes could be listed before,
  \<^verbatim>\<open>acquire_volatile\<close> then returns the path of the archive, to which it has appended its
  entries; the network log of the object is empty,
  none of the entries holds encoded text, the payload of \<^verbatim>\<open>netstat.log\<close>, and an entry of
  that name can only be the copy of an open file that \<^verbatim>\<open>strip_drive\<close> names so.
\<close>

theorem access_denied_network:
  assumes "net_connections h = None"
  shows "get_network h = Inr [] \<and>
         (get_processes_dict h s = Inr procs \<longrightarrow>
          (\<exists>archive_out s'.
             acquire_volatile h s out d =
               (Inr archive_out, s',
                zip_append d archive_out (volatile_entries h s' (take_screenshot h))) \<and>
             network_log s' = [] \<and>
             (\<forall>e\<in>set (volatile_entries h s' (take_screenshot h)).
                \<not> is_text (snd e) \<and>
                (fst e = ''netstat.log'' \<longrightarrow>
                   (\<exists>f\<in>set (dumped_files s'). e = (strip_drive h f, File_at f))))))"
proof -
  from assms have net: "get_network h = Inr []"
    by (simp add: get_network_def)
  have run: "\<exists>archive_out s'.
             acquire_volatile h s out d =
               (Inr archive_out, s',
                zip_append d archive_out (volatile_entries h s' (take_screenshot h))) \<and>
             network_log s' = [] \<and>
             (\<forall>e\<in>set (volatile_entries h s' (take_screenshot h)).
                \<not> is_text (snd e) \<and>
                (fst e = ''netstat.log'' \<longrightarrow>
                   (\<exists>f\<in>set (dumped_files s'). e = (strip_drive h f, File_at f))))"
    if inventory: "get_processes_dict h s = Inr procs"
  proof -
    from inventory have rows: "get_processes h s = Inr (map (process_row h) procs)"
      by (simp add: get_processes_def)
    from inventory have "\<exists>fs. (if include_open s then
        dump_loaded_files h (s\<lparr>process_info := map (process_row h) procs, network_log := []\<rparr>)
        else Inr []) = Inr fs"
      by (simp add: dump_loaded_files_def get_processes_dict_fields split: prod.splits)
    then obtain fs where fs: "(if include_open s then
        dump_loaded_files h (s\<lparr>process_info := map (process_row h) procs, network_log := []\<rparr>)
        else Inr []) = Inr fs"
      by blast
    have "\<exists>archive_out s'.
             acquire_volatile h s out d =
               (Inr archive_out, s',
                zip_append d archive_out (volatile_entries h s' (take_screenshot h))) \<and>
             network_log s' = []"
      using net rows fs by (simp add: acquire_volatile_def Let_def bound_method_def)
    with volatile_entries_no_log show ?thesis by blast
  qed
  from net run show ?thesis by blast
qed

theorem access_denied_network_witness:
  "net_connections denied_host = None \<and>
   get_processes_dict denied_host all_processes = Inr [] \<and>
   get_network denied_host = Inr [] \<and>
   snd (snd (acquire_volatile denied_host all_processes None no_archives)) ''host-0.0.zip'' =
     Some [(''processes.json'', Json (Table ''CadoJsonTable'' (Process_rows []))),
           (''open_files.json'', Json (Table ''CadoJsonTable'' (Open_file_rows [])))]"
proof -
  have denied: "net_connections denied_host = None"
    by (simp add: denied_host_def plain_host_def)
  have procs: "get_processes_dict denied_host all_processes = Inr []"
    by (simp add: denied_host_def plain_host_def all_processes_def run_defs)
  have run: "snd (snd (acquire_volatile denied_host all_processes None no_archives))
      ''host-0.0.zip'' =
     Some [(''processes.json'', Json (Table ''CadoJsonTable'' (Process_rows []))),
           (''open_files.json'', Json (Table ''CadoJsonTable'' (Open_file_rows [])))]"
    by (simp add: denied_host_def plain_host_def all_processes_def no_archives_def run_defs Let_def)
  from access_denied_network [OF denied, of all_processes "[]" None no_archives] denied procs run
  show ?thesis by simp
qed

end
